theory Spec2Isabelle
  imports Complex_Main
begin

section \<open>Python values, exceptions and the outside world\<close>

text \<open>
  The task store of \<^verbatim>\<open>models.py\<close> reads its records from JSON files without
  checking their types, so a field of a task holds whatever JSON value the file gave:
  the values of \<^verbatim>\<open>json.load\<close> are the datatype \<open>pyval\<close>. A dictionary is the list
  of its entries (distinct keys, in insertion order). Strings are byte strings.
  A finite Python float is a rational number, which \<open>PFloat\<close> carries.
\<close>

datatype pyval =
    PNone
  | PBool bool
  | PInt int
  | PFloat rat
  | PStr string
  | PList "pyval list"
  | PDict "(string \<times> pyval) list"

text \<open>Python's truth value of an object, as tested by \<^verbatim>\<open>if x:\<close> and \<^verbatim>\<open>x or y\<close>.\<close>

fun truthy :: "pyval \<Rightarrow> bool" where
  "truthy PNone = False"
| "truthy (PBool b) = b"
| "truthy (PInt i) = (i \<noteq> 0)"
| "truthy (PFloat r) = (r \<noteq> 0)"
| "truthy (PStr s) = (s \<noteq> [])"
| "truthy (PList xs) = (xs \<noteq> [])"
| "truthy (PDict kvs) = (kvs \<noteq> [])"

datatype py_exn =
    KeyError string
  | ValueError
  | TypeError
  | AttributeError
  | OSError
  | JSONDecodeError
  | EOFError

text \<open>\<^verbatim>\<open>d.get(k)\<close> and \<^verbatim>\<open>d.get(k, default)\<close> on a dictionary; \<^verbatim>\<open>d[k]\<close> raises KeyError.\<close>

definition dict_get :: "(string \<times> pyval) list \<Rightarrow> string \<Rightarrow> pyval \<Rightarrow> pyval" where
  "dict_get kvs k dflt = (case map_of kvs k of None \<Rightarrow> dflt | Some v \<Rightarrow> v)"

definition dict_item :: "(string \<times> pyval) list \<Rightarrow> string \<Rightarrow> py_exn + pyval" where
  "dict_item kvs k = (case map_of kvs k of None \<Rightarrow> Inl (KeyError k) | Some v \<Rightarrow> Inr v)"

text \<open>
  Iterating over a value, as the list comprehensions of \<^verbatim>\<open>load_tasks\<close> and
  \<^verbatim>\<open>import_tasks\<close> do over the result of \<^verbatim>\<open>json.load\<close>: a list gives its elements,
  a dictionary its keys, a string its characters; the other values are not iterable.
\<close>

fun py_iter :: "pyval \<Rightarrow> py_exn + pyval list" where
  "py_iter (PList xs) = Inr xs"
| "py_iter (PDict kvs) = Inr (map (\<lambda>kv. PStr (fst kv)) kvs)"
| "py_iter (PStr s) = Inr (map (\<lambda>c. PStr [c]) s)"
| "py_iter PNone = Inl TypeError"
| "py_iter (PBool b) = Inl TypeError"
| "py_iter (PInt i) = Inl TypeError"
| "py_iter (PFloat r) = Inl TypeError"

subsection \<open>Dates and their ISO format\<close>

record datetime =
  year :: nat
  month :: nat
  day :: nat
  hour :: nat
  minute :: nat
  second :: nat
  microsecond :: nat

definition is_leap :: "nat \<Rightarrow> bool" where
  "is_leap y = (if y mod 100 = 0 then y mod 400 = 0 else y mod 4 = 0)"

definition days_in_month :: "nat \<Rightarrow> nat \<Rightarrow> nat" where
  "days_in_month y m =
     (if m = 2 then (if is_leap y then 29 else 28)
      else if m = 4 \<or> m = 6 \<or> m = 9 \<or> m = 11 then 30 else 31)"

text \<open>The values a Python \<^verbatim>\<open>datetime\<close> object can have (naive, no time zone).\<close>

definition valid_datetime :: "datetime \<Rightarrow> bool" where
  "valid_datetime d =
     (1 \<le> year d \<and> year d \<le> 9999 \<and> 1 \<le> month d \<and> month d \<le> 12 \<and>
      1 \<le> day d \<and> day d \<le> days_in_month (year d) (month d) \<and>
      hour d < 24 \<and> minute d < 60 \<and> second d < 60 \<and> microsecond d < 1000000)"

definition digit_char :: "nat \<Rightarrow> char" where
  "digit_char n = ''0123456789'' ! n"

text \<open>\<^verbatim>\<open>"%0kd" % n\<close> for a number of at most \<open>k\<close> digits.\<close>

fun pad :: "nat \<Rightarrow> nat \<Rightarrow> string" where
  "pad 0 n = []"
| "pad (Suc k) n = pad k (n div 10) @ [digit_char (n mod 10)]"

text \<open>
  \<^verbatim>\<open>datetime.isoformat()\<close>: \<^verbatim>\<open>YYYY-MM-DDTHH:MM:SS\<close>, followed by \<^verbatim>\<open>.ffffff\<close> when the
  microsecond is not zero.
\<close>

definition isoformat :: "datetime \<Rightarrow> string" where
  "isoformat d =
     pad 4 (year d) @ ''-'' @ pad 2 (month d) @ ''-'' @ pad 2 (day d) @ ''T'' @
     pad 2 (hour d) @ '':'' @ pad 2 (minute d) @ '':'' @ pad 2 (second d) @
     (if microsecond d \<noteq> 0 then ''.'' @ pad 6 (microsecond d) else [])"

definition is_digit :: "char \<Rightarrow> bool" where
  "is_digit c = (48 \<le> (of_char c :: nat) \<and> (of_char c :: nat) \<le> 57)"

fun number :: "string \<Rightarrow> nat \<Rightarrow> nat option" where
  "number [] acc = Some acc"
| "number (c # cs) acc =
     (if is_digit c then number cs (10 * acc + (of_char c - 48)) else None)"

definition slice :: "nat \<Rightarrow> nat \<Rightarrow> string \<Rightarrow> string" where
  "slice i j s = take (j - i) (drop i s)"

text \<open>
  \<^verbatim>\<open>datetime.fromisoformat\<close> on the two shapes that \<^verbatim>\<open>isoformat\<close> writes. Which
  further ISO 8601 shapes it accepts (date only, other separators, time zones) depends
  on the Python version; they are outside this model, which answers ValueError there.
\<close>

definition fromisoformat :: "string \<Rightarrow> py_exn + datetime" where
  "fromisoformat s =
     (if (length s = 19 \<or> length s = 26) \<and>
         s ! 4 = CHR ''-'' \<and> s ! 7 = CHR ''-'' \<and> s ! 10 = CHR ''T'' \<and>
         s ! 13 = CHR '':'' \<and> s ! 16 = CHR '':'' \<and>
         (if length s = 26 then s ! 19 = CHR ''.'' else True)
      then
        (case (number (slice 0 4 s) 0, number (slice 5 7 s) 0, number (slice 8 10 s) 0,
               number (slice 11 13 s) 0, number (slice 14 16 s) 0, number (slice 17 19 s) 0,
               number (slice 20 26 s) 0) of
           (Some y, Some mo, Some dd, Some h, Some mi, Some se, Some us) \<Rightarrow>
             (let d = \<lparr>year = y, month = mo, day = dd, hour = h, minute = mi,
                       second = se, microsecond = us\<rparr>
              in if valid_datetime d then Inr d else Inl ValueError)
         | _ \<Rightarrow> Inl ValueError)
      else Inl ValueError)"

subsection \<open>Files, clock and standard output\<close>

text \<open>
  What a path holds: a file whose text \<^verbatim>\<open>json.load\<close> parses to a value, a file whose
  text it rejects, or something that exists and cannot be opened for reading (a
  directory, a file without permission).
\<close>

datatype node =
    Json_file pyval
  | Bad_file
  | Unreadable

text \<open>
  A printed line is a list of fragments: literal text, and the places where an f-string
  renders a value, an exception or a date with a library routine that is not modelled
  (\<^verbatim>\<open>str\<close> of an arbitrary value, the message of an exception, \<^verbatim>\<open>strftime\<close>).
\<close>

datatype frag =
    Lit string
  | Str pyval
  | Exc py_exn
  | Strftime datetime

type_synonym line = "frag list"

text \<open>
  The world outside the objects: the file system (\<open>read_only\<close> marks the paths where
  opening for writing raises), the readings that \<^verbatim>\<open>datetime.now()\<close> and
  \<^verbatim>\<open>time.time()\<close> will return, in the order of the calls, the lines printed, the
  lines still to be typed (each with the number of polls of the watchdog that pass while
  the program waits for it), the threads started so far and which of them still run, and
  the \<^verbatim>\<open>running\<close> attribute of the application objects, by object identity.
\<close>

record world =
  files :: "string \<Rightarrow> node option"
  read_only :: "string \<Rightarrow> bool"
  clock :: "nat \<Rightarrow> datetime"
  clock_reads :: nat
  time_src :: "nat \<Rightarrow> rat"
  time_reads :: nat
  stdout :: "line list"
  stdin :: "(nat \<times> string) list"
  threads :: nat
  alive :: "nat \<Rightarrow> bool"
  running :: "nat \<Rightarrow> bool"

definition print :: "line \<Rightarrow> world \<Rightarrow> world" where
  "print l w = w\<lparr>stdout := stdout w @ [l]\<rparr>"

text \<open>\<^verbatim>\<open>datetime.now()\<close>: the next reading of the clock.\<close>

definition datetime_now :: "world \<Rightarrow> datetime \<times> world" where
  "datetime_now w = (clock w (clock_reads w), w\<lparr>clock_reads := Suc (clock_reads w)\<rparr>)"

text \<open>
  \<^verbatim>\<open>with open(path, 'r') as f: json.load(f)\<close> on a path that may be missing
  (FileNotFoundError is an OSError).
\<close>

definition read_json :: "string \<Rightarrow> world \<Rightarrow> py_exn + pyval" where
  "read_json path w =
     (case files w path of
        None \<Rightarrow> Inl OSError
      | Some Unreadable \<Rightarrow> Inl OSError
      | Some Bad_file \<Rightarrow> Inl JSONDecodeError
      | Some (Json_file v) \<Rightarrow> Inr v)"

text \<open>
  \<^verbatim>\<open>with open(path, 'w') as f: json.dump(v, f, indent=2)\<close>: the whole file is
  replaced, or \<^verbatim>\<open>open\<close> raises and the file system stays as it was.
\<close>

definition write_json :: "string \<Rightarrow> pyval \<Rightarrow> world \<Rightarrow> py_exn + world" where
  "write_json path v w =
     (if read_only w path then Inl OSError
      else Inr (w\<lparr>files := (files w)(path \<mapsto> Json_file v)\<rparr>))"

section \<open>models.py: Task\<close>

record task =
  title :: pyval
  description :: pyval
  completed :: pyval
  created_at :: "datetime option"
  completed_at :: "datetime option"

text \<open>
  \<^verbatim>\<open>Task.__init__(title, description, created_at, completed_at)\<close>: \<^verbatim>\<open>completed\<close> is
  always False; \<^verbatim>\<open>created_at or datetime.now()\<close> reads the clock only when no creation
  time was given.
\<close>

definition Task_init :: "pyval \<Rightarrow> pyval \<Rightarrow> datetime option \<Rightarrow> datetime option \<Rightarrow> world \<Rightarrow> task \<times> world" where
  "Task_init ttl descr created completed_time w =
     (case created of
        Some c \<Rightarrow>
          (\<lparr>title = ttl, description = descr, completed = PBool False,
            created_at = Some c, completed_at = completed_time\<rparr>, w)
      | None \<Rightarrow>
          (let (n, w') = datetime_now w
           in (\<lparr>title = ttl, description = descr, completed = PBool False,
                created_at = Some n, completed_at = completed_time\<rparr>, w')))"

definition mark_completed :: "task \<Rightarrow> world \<Rightarrow> task \<times> world" where
  "mark_completed t w =
     (let (n, w') = datetime_now w
      in (t\<lparr>completed := PBool True, completed_at := Some n\<rparr>, w'))"

definition mark_pending :: "task \<Rightarrow> task" where
  "mark_pending t = t\<lparr>completed := PBool False, completed_at := None\<rparr>"

definition iso_or_none :: "datetime option \<Rightarrow> pyval" where
  "iso_or_none x = (case x of None \<Rightarrow> PNone | Some d \<Rightarrow> PStr (isoformat d))"

definition to_dict :: "task \<Rightarrow> pyval" where
  "to_dict t =
     PDict [(''title'', title t),
            (''description'', description t),
            (''completed'', completed t),
            (''created_at'', iso_or_none (created_at t)),
            (''completed_at'', iso_or_none (completed_at t))]"

text \<open>
  \<^verbatim>\<open>if data.get(k): x = datetime.fromisoformat(data[k])\<close>, with \<open>x\<close> None before:
  a missing or falsy entry leaves None, a string is parsed, any other truthy value makes
  \<^verbatim>\<open>fromisoformat\<close> raise TypeError.
\<close>

definition read_time :: "(string \<times> pyval) list \<Rightarrow> string \<Rightarrow> py_exn + datetime option" where
  "read_time kvs k =
     (let v = dict_get kvs k PNone
      in if truthy v
         then (case v of
                 PStr s \<Rightarrow> (case fromisoformat s of Inl e \<Rightarrow> Inl e | Inr d \<Rightarrow> Inr (Some d))
               | _ \<Rightarrow> Inl TypeError)
         else Inr None)"

text \<open>
  \<^verbatim>\<open>Task.from_dict(data)\<close>. Only a dictionary has \<^verbatim>\<open>get\<close>; the two times are read
  first, then \<^verbatim>\<open>data['title']\<close>, then the constructor runs and \<^verbatim>\<open>completed\<close> is
  overwritten by the stored value.
\<close>

definition from_dict :: "pyval \<Rightarrow> world \<Rightarrow> (py_exn + task) \<times> world" where
  "from_dict data w =
     (case data of
        PDict kvs \<Rightarrow>
          (case read_time kvs ''created_at'' of
             Inl e \<Rightarrow> (Inl e, w)
           | Inr created \<Rightarrow>
               (case read_time kvs ''completed_at'' of
                  Inl e \<Rightarrow> (Inl e, w)
                | Inr completed_time \<Rightarrow>
                    (case dict_item kvs ''title'' of
                       Inl e \<Rightarrow> (Inl e, w)
                     | Inr ttl \<Rightarrow>
                         (let (t, w') = Task_init ttl (dict_get kvs ''description'' (PStr ''''))
                                           created completed_time w
                          in (Inr (t\<lparr>completed := dict_get kvs ''completed'' (PBool False)\<rparr>), w')))))
      | _ \<Rightarrow> (Inl AttributeError, w))"

section \<open>models.py: TaskManager\<close>

record manager =
  tasks :: "task list"
  data_file :: string

text \<open>\<^verbatim>\<open>str(n)\<close> of an integer, for the numbers that the messages embed.\<close>

fun str_nat :: "nat \<Rightarrow> string" where
  "str_nat n = (if n < 10 then [digit_char n] else str_nat (n div 10) @ [digit_char (n mod 10)])"

declare str_nat.simps [simp del]

definition str_int :: "int \<Rightarrow> string" where
  "str_int i = (if i < 0 then ''-'' @ str_nat (nat (- i)) else str_nat (nat i))"

text \<open>
  \<^verbatim>\<open>save_tasks\<close>: every task is converted and the list is written over the backing
  file; an exception is printed and swallowed, and the tasks in memory are not touched.
\<close>

definition save_tasks :: "manager \<Rightarrow> world \<Rightarrow> world" where
  "save_tasks m w =
     (case write_json (data_file m) (PList (map to_dict (tasks m))) w of
        Inl e \<Rightarrow> print [Lit ''Error saving tasks: '', Exc e] w
      | Inr w' \<Rightarrow> w')"

text \<open>
  The list comprehension \<^verbatim>\<open>[Task.from_dict(d) for d in tasks_data]\<close>: the first
  record that raises ends it, with the clock readings made so far.
\<close>

fun from_dicts :: "pyval list \<Rightarrow> world \<Rightarrow> (py_exn + task list) \<times> world" where
  "from_dicts [] w = (Inr [], w)"
| "from_dicts (d # ds) w =
     (case from_dict d w of
        (Inl e, w') \<Rightarrow> (Inl e, w')
      | (Inr t, w') \<Rightarrow>
          (case from_dicts ds w' of
             (Inl e, w'') \<Rightarrow> (Inl e, w'')
           | (Inr ts, w'') \<Rightarrow> (Inr (t # ts), w'')))"

text \<open>Reading a file of records: \<^verbatim>\<open>json.load\<close>, then the list comprehension.\<close>

definition read_tasks :: "string \<Rightarrow> world \<Rightarrow> (py_exn + task list) \<times> world" where
  "read_tasks path w =
     (case read_json path w of
        Inl e \<Rightarrow> (Inl e, w)
      | Inr v \<Rightarrow>
          (case py_iter v of
             Inl e \<Rightarrow> (Inl e, w)
           | Inr ds \<Rightarrow> from_dicts ds w))"

text \<open>The body of the \<^verbatim>\<open>try\<close> block of \<^verbatim>\<open>load_tasks\<close>, which may raise.\<close>

definition load_tasks_body :: "manager \<Rightarrow> world \<Rightarrow> (py_exn + manager) \<times> world" where
  "load_tasks_body m w =
     (if files w (data_file m) \<noteq> None
      then (case read_tasks (data_file m) w of
              (Inl e, w') \<Rightarrow> (Inl e, w')
            | (Inr ts, w') \<Rightarrow> (Inr (m\<lparr>tasks := ts\<rparr>), w'))
      else (Inr m, w))"

text \<open>\<^verbatim>\<open>load_tasks\<close>: \<^verbatim>\<open>except Exception\<close> prints the error and empties the list.\<close>

definition load_tasks :: "manager \<Rightarrow> world \<Rightarrow> manager \<times> world" where
  "load_tasks m w =
     (case load_tasks_body m w of
        (Inl e, w') \<Rightarrow> (m\<lparr>tasks := []\<rparr>, print [Lit ''Error loading tasks: '', Exc e] w')
      | (Inr m', w') \<Rightarrow> (m', w'))"

definition TaskManager_init :: "string \<Rightarrow> world \<Rightarrow> manager \<times> world" where
  "TaskManager_init path w = load_tasks \<lparr>tasks = [], data_file = path\<rparr> w"

definition add_task :: "pyval \<Rightarrow> pyval \<Rightarrow> manager \<Rightarrow> world \<Rightarrow> manager \<times> world" where
  "add_task ttl descr m w =
     (let (t, w1) = Task_init ttl descr None None w;
          m' = m\<lparr>tasks := tasks m @ [t]\<rparr>;
          w2 = print [Lit ''Task , Str ttl, Lit  has been added!''] w1
      in (m', save_tasks m' w2))"

definition complete_task :: "int \<Rightarrow> manager \<Rightarrow> world \<Rightarrow> manager \<times> world" where
  "complete_task task_num m w =
     (if 1 \<le> task_num \<and> task_num \<le> int (length (tasks m))
      then
        (let i = nat (task_num - 1);
             (t, w1) = mark_completed (tasks m ! i) w;
             m' = m\<lparr>tasks := (tasks m)[i := t]\<rparr>;
             w2 = print [Lit (''Task '' @ str_int task_num @ '' has been marked as completed!'')] w1
         in (m', save_tasks m' w2))
      else (m, print [Lit ''Invalid task number!''] w))"

definition delete_task :: "int \<Rightarrow> manager \<Rightarrow> world \<Rightarrow> manager \<times> world" where
  "delete_task task_num m w =
     (if 1 \<le> task_num \<and> task_num \<le> int (length (tasks m))
      then
        (let i = nat (task_num - 1);
             deleted_task = tasks m ! i;
             m' = m\<lparr>tasks := take i (tasks m) @ drop (Suc i) (tasks m)\<rparr>;
             w1 = print [Lit ''Task , Str (title deleted_task), Lit  has been deleted!''] w
         in (m', save_tasks m' w1))
      else (m, print [Lit ''Invalid task number!''] w))"

text \<open>\<^verbatim>\<open>get_task_count\<close>: total, completed (the tasks whose flag is truthy), pending.\<close>

definition get_task_count :: "manager \<Rightarrow> int \<times> int \<times> int" where
  "get_task_count m =
     (let total_count = int (length (tasks m));
          completed_count = int (length (filter (\<lambda>t. truthy (completed t)) (tasks m)));
          pending = total_count - completed_count
      in (total_count, completed_count, pending))"

definition clear_all_tasks :: "manager \<Rightarrow> world \<Rightarrow> manager \<times> world" where
  "clear_all_tasks m w =
     (let m' = m\<lparr>tasks := []\<rparr>;
          w1 = save_tasks m' w
      in (m', print [Lit ''All tasks have been cleared!''] w1))"

text \<open>\<^verbatim>\<open>strftime("%Y%m%d_%H%M%S")\<close>, which names an export file.\<close>

definition export_stamp :: "datetime \<Rightarrow> string" where
  "export_stamp d =
     pad 4 (year d) @ pad 2 (month d) @ pad 2 (day d) @ ''_'' @
     pad 2 (hour d) @ pad 2 (minute d) @ pad 2 (second d)"

definition export_tasks :: "string option \<Rightarrow> manager \<Rightarrow> world \<Rightarrow> world" where
  "export_tasks filename_opt m w =
     (let (filename, w1) =
            (case filename_opt of
               Some f \<Rightarrow> (f, w)
             | None \<Rightarrow>
                 (let (n, w') = datetime_now w
                  in (''tasks_export_'' @ export_stamp n @ ''.json'', w')))
      in case write_json filename (PList (map to_dict (tasks m))) w1 of
           Inl e \<Rightarrow> print [Lit ''Error exporting tasks: '', Exc e] w1
         | Inr w2 \<Rightarrow> print [Lit (''Tasks exported to '' @ filename)] w2)"

text \<open>
  \<^verbatim>\<open>import_tasks\<close>: a missing file is reported and nothing else happens; otherwise
  the records are read, and only when all of them were read are they appended, saved and
  counted. Any exception is printed and swallowed.
\<close>

definition import_tasks :: "string \<Rightarrow> manager \<Rightarrow> world \<Rightarrow> manager \<times> world" where
  "import_tasks filename m w =
     (if files w filename = None
      then (m, print [Lit (''File '' @ filename @ '' not found!'')] w)
      else
        (case read_tasks filename w of
           (Inl e, w') \<Rightarrow> (m, print [Lit ''Error importing tasks: '', Exc e] w')
         | (Inr imported_tasks, w') \<Rightarrow>
             (let m' = m\<lparr>tasks := tasks m @ imported_tasks\<rparr>;
                  w1 = save_tasks m' w'
              in (m', print [Lit (''Successfully imported '' @ str_nat (length imported_tasks) @
                                  '' tasks from '' @ filename)] w1))))"

text \<open>\<^verbatim>\<open>Task.__str__\<close>; \<^verbatim>\<open>strftime\<close> on a missing creation time raises AttributeError.\<close>

definition check_mark :: string where
  "check_mark = [CHR 0xE2, CHR 0x9C, CHR 0x93]"

definition circle_mark :: string where
  "circle_mark = [CHR 0xE2, CHR 0x97, CHR 0x8B]"

definition task_str :: "task \<Rightarrow> py_exn + line" where
  "task_str t =
     (let status = (if truthy (completed t) then check_mark else circle_mark)
      in case created_at t of
           None \<Rightarrow> Inl AttributeError
         | Some c \<Rightarrow>
             Inr [Lit (''['' @ status @ ''] ''), Str (title t), Lit '' - '', Str (description t),
                  Lit '' (Created: '', Strftime c, Lit '')''])"

fun list_tasks_from :: "nat \<Rightarrow> task list \<Rightarrow> world \<Rightarrow> py_exn option \<times> world" where
  "list_tasks_from i [] w = (None, w)"
| "list_tasks_from i (t # ts) w =
     (case task_str t of
        Inl e \<Rightarrow> (Some e, w)
      | Inr l \<Rightarrow> list_tasks_from (Suc i) ts (print (Lit (str_nat i @ ''. '') # l) w))"

definition list_tasks :: "manager \<Rightarrow> world \<Rightarrow> py_exn option \<times> world" where
  "list_tasks m w =
     (if tasks m = [] then (None, print [Lit ''No tasks available''] w)
      else
        (case list_tasks_from 1 (tasks m) (print [Lit (CHR 0x0A # ''=== Task List ==='')] w) of
           (Some e, w') \<Rightarrow> (Some e, w')
         | (None, w') \<Rightarrow> (None, print [] w')))"

fun task_history_from :: "nat \<Rightarrow> task list \<Rightarrow> world \<Rightarrow> py_exn option \<times> world" where
  "task_history_from i [] w = (None, w)"
| "task_history_from i (t # ts) w =
     (let status = (if truthy (completed t) then check_mark else circle_mark)
      in case created_at t of
           None \<Rightarrow> (Some AttributeError, w)
         | Some c \<Rightarrow>
             (let completed_str =
                    (case completed_at t of
                       Some cd \<Rightarrow> Strftime cd
                     | None \<Rightarrow> Lit ''Not completed'');
                  w1 = print [Lit (str_nat i @ ''. ['' @ status @ ''] ''), Str (title t)] w;
                  w2 = print [Lit ''   Created: '', Strftime c] w1;
                  w3 = print [Lit ''   Completed: '', completed_str] w2;
                  w4 = print [Lit ''   Description: '', Str (description t)] w3;
                  w5 = print [] w4
              in task_history_from (Suc i) ts w5))"

definition get_task_history :: "manager \<Rightarrow> world \<Rightarrow> py_exn option \<times> world" where
  "get_task_history m w =
     (if tasks m = [] then (None, print [Lit ''No task history available''] w)
      else task_history_from 1 (tasks m) (print [Lit (CHR 0x0A # ''=== Task History ==='')] w))"

text \<open>Sequences of the two operations that change the number of tasks.\<close>

datatype op = Add pyval pyval | Delete int

fun apply_ops :: "op list \<Rightarrow> manager \<Rightarrow> world \<Rightarrow> manager \<times> world" where
  "apply_ops [] m w = (m, w)"
| "apply_ops (Add ttl descr # ops) m w =
     (let (m', w') = add_task ttl descr m w in apply_ops ops m' w')"
| "apply_ops (Delete n # ops) m w =
     (let (m', w') = delete_task n m w in apply_ops ops m' w')"

fun adds :: "op list \<Rightarrow> nat" where
  "adds [] = 0"
| "adds (Add ttl descr # ops) = Suc (adds ops)"
| "adds (Delete n # ops) = adds ops"

text \<open>
  The deletes of a sequence whose index is in range (the test of \<^verbatim>\<open>delete_task\<close>)
  at the moment they run.
\<close>

fun in_range_deletes :: "op list \<Rightarrow> manager \<Rightarrow> world \<Rightarrow> nat" where
  "in_range_deletes [] m w = 0"
| "in_range_deletes (Add ttl descr # ops) m w =
     (let (m', w') = add_task ttl descr m w in in_range_deletes ops m' w')"
| "in_range_deletes (Delete n # ops) m w =
     (let (m', w') = delete_task n m w
      in (if 1 \<le> n \<and> n \<le> int (length (tasks m)) then 1 else 0) + in_range_deletes ops m' w')"

text \<open>
  What the constructor and \<^verbatim>\<open>from_dict\<close> establish for every task: a creation time is
  present, and the times are dates that exist.
\<close>

definition task_ok :: "task \<Rightarrow> bool" where
  "task_ok t =
     ((case created_at t of None \<Rightarrow> False | Some c \<Rightarrow> valid_datetime c) \<and>
      (case completed_at t of None \<Rightarrow> True | Some c \<Rightarrow> valid_datetime c))"

definition clock_ok :: "world \<Rightarrow> bool" where
  "clock_ok w = (\<forall>n. valid_datetime (clock w n))"

text \<open>Two worlds that differ at most in the readings taken from the clocks.\<close>

definition same_outside :: "world \<Rightarrow> world \<Rightarrow> bool" where
  "same_outside w w' =
     (files w' = files w \<and> read_only w' = read_only w \<and> clock w' = clock w \<and>
      stdout w' = stdout w)"

section \<open>Floating point\<close>

text \<open>
  A finite double is a rational number. \<open>fl\<close> rounds a rational to the nearest double
  (53 significant bits, ties to even), as every IEEE operation rounds its exact result;
  the exponent range is not modelled (no overflow, no subnormal numbers), which the
  numbers of this program (times in seconds, ratios of list lengths) do not reach.
\<close>

text \<open>\<^verbatim>\<open>int.bit_length()\<close> of a positive integer.\<close>

function bit_length :: "int \<Rightarrow> int" where
  "bit_length n = (if n \<le> 0 then 0 else 1 + bit_length (n div 2))"
  by pat_completeness auto
termination
  by (relation "measure nat") auto

declare bit_length.simps [simp del]

definition pow2 :: "int \<Rightarrow> rat" where
  "pow2 e = (if 0 \<le> e then 2 ^ nat e else 1 / 2 ^ nat (- e))"

text \<open>The binary exponent of a positive rational: the \<open>e\<close> with \<open>2^e \<le> q < 2^(e+1)\<close>.\<close>

definition ilog2 :: "rat \<Rightarrow> int" where
  "ilog2 q =
     (let (a, b) = quotient_of q;
          k = bit_length a - bit_length b
      in if pow2 k \<le> q then k else k - 1)"

definition round_half_even :: "rat \<Rightarrow> int" where
  "round_half_even q =
     (let f = \<lfloor>q\<rfloor>; r = q - of_int f
      in if r < 1 / 2 then f else if 1 / 2 < r then f + 1 else if even f then f else f + 1)"

definition fl :: "rat \<Rightarrow> rat" where
  "fl x =
     (if x = 0 then 0
      else (let u = pow2 (ilog2 \<bar>x\<bar> - 52) in of_int (round_half_even (x / u)) * u))"

text \<open>
  \<^verbatim>\<open>f"{x:.1f}"\<close>: the decimal with one digit after the point that is nearest to the
  exact value of the double, ties to even.
\<close>

definition tenths :: "rat \<Rightarrow> int" where
  "tenths x = round_half_even (\<bar>x\<bar> * 10)"

definition format_1f :: "rat \<Rightarrow> string" where
  "format_1f x =
     (if x < 0 then ''-'' else []) @
     str_nat (nat (tenths x div 10)) @ ''.'' @ str_nat (nat (tenths x mod 10))"

text \<open>\<^verbatim>\<open>(completed / total) * 100\<close>: a true division of integers, then a product.\<close>

definition completion_rate :: "int \<Rightarrow> int \<Rightarrow> rat" where
  "completion_rate completed_count total_count =
     fl (fl (of_int completed_count / of_int total_count) * 100)"

section \<open>app.py: TimeoutManager\<close>

record timeout_manager =
  timeout_seconds :: int
  last_activity :: rat
  timeout_thread :: "nat option"
  is_running :: bool
  app_instance :: "nat option"

text \<open>\<^verbatim>\<open>time.time()\<close>: the next reading of the clock, in seconds.\<close>

definition time_time :: "world \<Rightarrow> rat \<times> world" where
  "time_time w = (time_src w (time_reads w), w\<lparr>time_reads := Suc (time_reads w)\<rparr>)"

definition TimeoutManager_init :: "int \<Rightarrow> world \<Rightarrow> timeout_manager \<times> world" where
  "TimeoutManager_init secs w =
     (let (now, w') = time_time w
      in (\<lparr>timeout_seconds = secs, last_activity = now, timeout_thread = None,
           is_running = False, app_instance = None\<rparr>, w'))"

definition set_app_instance :: "nat \<Rightarrow> timeout_manager \<Rightarrow> timeout_manager" where
  "set_app_instance a tm = tm\<lparr>app_instance := Some a\<rparr>"

definition reset_activity :: "timeout_manager \<Rightarrow> world \<Rightarrow> timeout_manager \<times> world" where
  "reset_activity tm w = (let (now, w') = time_time w in (tm\<lparr>last_activity := now\<rparr>, w'))"

text \<open>\<^verbatim>\<open>threading.Thread(...).start()\<close>: a new thread, named by its number.\<close>

definition thread_start :: "world \<Rightarrow> nat \<times> world" where
  "thread_start w = (threads w, w\<lparr>threads := Suc (threads w), alive := (alive w)(threads w := True)\<rparr>)"

definition thread_exit :: "nat \<Rightarrow> world \<Rightarrow> world" where
  "thread_exit tid w = w\<lparr>alive := (alive w)(tid := False)\<rparr>"

definition start_timeout :: "timeout_manager \<Rightarrow> world \<Rightarrow> timeout_manager \<times> world" where
  "start_timeout tm w =
     (if is_running tm then (tm, w)
      else
        (let tm1 = tm\<lparr>is_running := True\<rparr>;
             (tm2, w1) = reset_activity tm1 w;
             (tid, w2) = thread_start w1
         in (tm2\<lparr>timeout_thread := Some tid\<rparr>, w2)))"

definition warning_sign :: string where
  "warning_sign = [CHR 0xE2, CHR 0x9A, CHR 0xA0, CHR 0xEF, CHR 0xB8, CHR 0x8F]"

datatype tick = Continue | Break

text \<open>
  One pass of the loop of \<^verbatim>\<open>_timeout_monitor\<close> after \<^verbatim>\<open>time.sleep(1)\<close> (lines 46 to
  57): leave when the manager was stopped meanwhile; otherwise read the time and, when
  the idle time has reached the limit, print the notice, clear the \<^verbatim>\<open>running\<close>
  attribute of the application (when one is set) and leave. The method assigns no
  attribute of the manager itself, which is returned as it was.
\<close>

definition poll_tick :: "timeout_manager \<Rightarrow> world \<Rightarrow> tick \<times> timeout_manager \<times> world" where
  "poll_tick tm w =
     (if \<not> is_running tm then (Break, tm, w)
      else
        (let (current_time, w1) = time_time w;
             inactive_time = fl (current_time - last_activity tm)
         in if of_int (timeout_seconds tm) \<le> inactive_time
            then
              (let w2 = print [Lit ([CHR 0x0A, CHR 0x0A] @ warning_sign @
                                    ''  Session timeout! No activity for '' @
                                    str_int (timeout_seconds tm div 60) @ '' minutes.'')] w1;
                   w3 = print [Lit ''Application will exit automatically...''] w2;
                   w4 = (case app_instance tm of
                           None \<Rightarrow> w3
                         | Some a \<Rightarrow> w3\<lparr>running := (running w3)(a := False)\<rparr>)
               in (Break, tm, w4))
            else (Continue, tm, w1)))"

text \<open>
  The thread that runs \<^verbatim>\<open>_timeout_monitor\<close>, for the next \<open>k\<close> sleeps of one second,
  while the other thread does nothing: \<^verbatim>\<open>while self.is_running\<close>, the sleep, the
  pass above. Leaving the loop ends the thread; after \<open>k\<close> sleeps without leaving it,
  the thread is still in the loop.
\<close>

fun timeout_monitor :: "nat \<Rightarrow> nat \<Rightarrow> timeout_manager \<Rightarrow> world \<Rightarrow> timeout_manager \<times> world" where
  "timeout_monitor tid 0 tm w = (tm, w)"
| "timeout_monitor tid (Suc k) tm w =
     (if is_running tm
      then (case poll_tick tm w of
              (Break, tm', w') \<Rightarrow> (tm', thread_exit tid w')
            | (Continue, tm', w') \<Rightarrow> timeout_monitor tid k tm' w')
      else (tm, thread_exit tid w))"

text \<open>\<open>k\<close> seconds pass: the monitoring thread of the manager, if it still runs, polls.\<close>

definition pass_time :: "nat \<Rightarrow> timeout_manager \<Rightarrow> world \<Rightarrow> timeout_manager \<times> world" where
  "pass_time k tm w =
     (case timeout_thread tm of
        None \<Rightarrow> (tm, w)
      | Some tid \<Rightarrow> if alive w tid then timeout_monitor tid k tm w else (tm, w))"

text \<open>
  \<^verbatim>\<open>stop_timeout\<close>: the flag is cleared; \<^verbatim>\<open>join(timeout=1)\<close> on a live thread waits
  for one second, in which the thread wakes up once.
\<close>

definition stop_timeout :: "timeout_manager \<Rightarrow> world \<Rightarrow> timeout_manager \<times> world" where
  "stop_timeout tm w =
     (let tm' = tm\<lparr>is_running := False\<rparr>
      in case timeout_thread tm' of
           None \<Rightarrow> (tm', w)
         | Some tid \<Rightarrow> if alive w tid then pass_time 1 tm' w else (tm', w))"

section \<open>app.py: TaskManagerApp\<close>

record app =
  app_id :: nat
  manager :: manager
  timeout_manager :: timeout_manager

definition TaskManagerApp_init :: "nat \<Rightarrow> world \<Rightarrow> app \<times> world" where
  "TaskManagerApp_init ident w =
     (let (m, w1) = TaskManager_init ''tasks.json'' w;
          w2 = w1\<lparr>running := (running w1)(ident := True)\<rparr>;
          (tm, w3) = TimeoutManager_init 180 w2
      in (\<lparr>app_id = ident, manager = m, timeout_manager = set_app_instance ident tm\<rparr>, w3))"

subsection \<open>Reading the keyboard\<close>

text \<open>
  \<^verbatim>\<open>input(prompt)\<close>: the prompt is written, the program waits for the next line while
  the watchdog polls, and the line is returned; at the end of the input EOFError is raised.
\<close>

definition input :: "string \<Rightarrow> app \<Rightarrow> world \<Rightarrow> (py_exn + string) \<times> app \<times> world" where
  "input prompt a w =
     (let w0 = print [Lit prompt] w
      in case stdin w0 of
           [] \<Rightarrow> (Inl EOFError, a, w0)
         | (k, s) # rest \<Rightarrow>
             (let (tm, w1) = pass_time k (timeout_manager a) (w0\<lparr>stdin := rest\<rparr>)
              in (Inr s, a\<lparr>timeout_manager := tm\<rparr>, w1)))"

definition is_space :: "char \<Rightarrow> bool" where
  "is_space c =
     (let n = (of_char c :: nat) in (9 \<le> n \<and> n \<le> 13) \<or> (28 \<le> n \<and> n \<le> 32))"

definition strip :: "string \<Rightarrow> string" where
  "strip s = rev (dropWhile is_space (rev (dropWhile is_space s)))"

definition lower :: "string \<Rightarrow> string" where
  "lower s = map (\<lambda>c. if 65 \<le> (of_char c :: nat) \<and> (of_char c :: nat) \<le> 90
                      then char_of ((of_char c :: nat) + 32) else c) s"

text \<open>
  \<^verbatim>\<open>int(s)\<close> of a string: surrounding white space, an optional sign, decimal digits
  with single underscores between them; None stands for ValueError. (Digits outside
  ASCII are not modelled.)
\<close>

fun after_digit :: "string \<Rightarrow> nat \<Rightarrow> nat option" where
  "after_digit [] acc = Some acc"
| "after_digit [c] acc = (if is_digit c then Some (10 * acc + (of_char c - 48)) else None)"
| "after_digit (c # d # cs) acc =
     (if is_digit c then after_digit (d # cs) (10 * acc + (of_char c - 48))
      else if c = CHR ''_'' \<and> is_digit d then after_digit cs (10 * acc + (of_char d - 48))
      else None)"

definition digits_value :: "string \<Rightarrow> nat option" where
  "digits_value s =
     (case s of
        [] \<Rightarrow> None
      | c # cs \<Rightarrow> if is_digit c then after_digit cs (of_char c - 48) else None)"

definition py_int :: "string \<Rightarrow> int option" where
  "py_int s =
     (case strip s of
        [] \<Rightarrow> None
      | c # cs \<Rightarrow>
          if c = CHR ''-'' then map_option (\<lambda>n. - int n) (digits_value cs)
          else if c = CHR ''+'' then map_option int (digits_value cs)
          else map_option int (digits_value (c # cs)))"

subsection \<open>The menu and its handlers\<close>

definition app_reset_activity :: "app \<Rightarrow> world \<Rightarrow> app \<times> world" where
  "app_reset_activity a w =
     (let (tm, w') = reset_activity (timeout_manager a) w in (a\<lparr>timeout_manager := tm\<rparr>, w'))"

definition show_menu :: "world \<Rightarrow> world" where
  "show_menu w =
     foldl (\<lambda>w' l. print [Lit l] w') w
       [CHR 0x0A # replicate 40 CHR ''='',
        ''          Task Management System'',
        replicate 40 CHR ''='',
        ''1. Add Task'',
        ''2. View Task List'',
        ''3. Complete Task'',
        ''4. Delete Task'',
        ''5. Statistics'',
        ''6. Task History'',
        ''7. Export Tasks'',
        ''8. Import Tasks'',
        ''9. Clear All Tasks'',
        ''0. Exit Program'',
        replicate 40 CHR ''-'']"

text \<open>
  \<^verbatim>\<open>get_user_choice\<close>: the number typed, or 0 when \<^verbatim>\<open>int\<close> raises ValueError; the
  activity time is reset either way. The end of the input is not a ValueError.
\<close>

definition get_user_choice :: "app \<Rightarrow> world \<Rightarrow> (py_exn + int) \<times> app \<times> world" where
  "get_user_choice a w =
     (case input ''Please select an operation (0-9): '' a w of
        (Inl e, a1, w1) \<Rightarrow> (Inl e, a1, w1)
      | (Inr s, a1, w1) \<Rightarrow>
          (case py_int s of
             Some choice \<Rightarrow> (let (a2, w2) = app_reset_activity a1 w1 in (Inr choice, a2, w2))
           | None \<Rightarrow> (let (a2, w2) = app_reset_activity a1 w1 in (Inr 0, a2, w2))))"

definition handle_add_task :: "app \<Rightarrow> world \<Rightarrow> py_exn option \<times> app \<times> world" where
  "handle_add_task a w =
     (case input ''Please enter task title: '' a w of
        (Inl e, a1, w1) \<Rightarrow> (Some e, a1, w1)
      | (Inr s, a1, w1) \<Rightarrow>
          (let ttl = strip s;
               (a2, w2) = app_reset_activity a1 w1
           in if ttl = [] then (None, a2, print [Lit ''Task title cannot be empty!''] w2)
              else
                (case input ''Please enter task description (optional): '' a2 w2 of
                   (Inl e, a3, w3) \<Rightarrow> (Some e, a3, w3)
                 | (Inr s', a3, w3) \<Rightarrow>
                     (let descr = strip s';
                          (a4, w4) = app_reset_activity a3 w3;
                          (m, w5) = add_task (PStr ttl) (PStr descr) (manager a4) w4
                      in (None, a4\<lparr>manager := m\<rparr>, w5)))))"

text \<open>
  \<^verbatim>\<open>handle_complete_task\<close> and \<^verbatim>\<open>handle_delete_task\<close> differ in the prompt and in the
  operation of the manager that is called with the number.
\<close>

definition handle_numbered ::
  "string \<Rightarrow> (int \<Rightarrow> manager \<Rightarrow> world \<Rightarrow> manager \<times> world) \<Rightarrow> app \<Rightarrow> world \<Rightarrow> py_exn option \<times> app \<times> world" where
  "handle_numbered prompt operation a w =
     (case list_tasks (manager a) w of
        (Some e, w1) \<Rightarrow> (Some e, a, w1)
      | (None, w1) \<Rightarrow>
          if tasks (manager a) = [] then (None, a, w1)
          else
            (case input prompt a w1 of
               (Inl e, a2, w2) \<Rightarrow> (Some e, a2, w2)
             | (Inr s, a2, w2) \<Rightarrow>
                 (case py_int s of
                    Some task_num \<Rightarrow>
                      (let (a3, w3) = app_reset_activity a2 w2;
                           (m, w4) = operation task_num (manager a3) w3
                       in (None, a3\<lparr>manager := m\<rparr>, w4))
                  | None \<Rightarrow>
                      (let (a3, w3) = app_reset_activity a2 w2
                       in (None, a3, print [Lit ''Please enter a valid number!''] w3)))))"

definition handle_complete_task :: "app \<Rightarrow> world \<Rightarrow> py_exn option \<times> app \<times> world" where
  "handle_complete_task = handle_numbered ''Please enter the task number to complete: '' complete_task"

definition handle_delete_task :: "app \<Rightarrow> world \<Rightarrow> py_exn option \<times> app \<times> world" where
  "handle_delete_task = handle_numbered ''Please enter the task number to delete: '' delete_task"

definition show_statistics :: "app \<Rightarrow> world \<Rightarrow> world" where
  "show_statistics a w =
     (let (total_count, completed_count, pending) = get_task_count (manager a);
          w1 = print [Lit (CHR 0x0A # ''=== Statistics ==='')] w;
          w2 = print [Lit (''Total tasks: '' @ str_int total_count)] w1;
          w3 = print [Lit (''Completed: '' @ str_int completed_count)] w2;
          w4 = print [Lit (''Pending: '' @ str_int pending)] w3
      in if 0 < total_count
         then print [Lit (''Completion rate: '' @
                          format_1f (completion_rate completed_count total_count) @ ''%'')] w4
         else w4)"

definition handle_task_history :: "app \<Rightarrow> world \<Rightarrow> py_exn option \<times> app \<times> world" where
  "handle_task_history a w = (let (r, w') = get_task_history (manager a) w in (r, a, w'))"

definition handle_export_tasks :: "app \<Rightarrow> world \<Rightarrow> py_exn option \<times> app \<times> world" where
  "handle_export_tasks a w =
     (case input ''Enter filename for export (or press Enter for auto-generated name): '' a w of
        (Inl e, a1, w1) \<Rightarrow> (Some e, a1, w1)
      | (Inr s, a1, w1) \<Rightarrow>
          (let filename = strip s;
               (a2, w2) = app_reset_activity a1 w1
           in if filename \<noteq> [] then (None, a2, export_tasks (Some filename) (manager a2) w2)
              else (None, a2, export_tasks None (manager a2) w2)))"

definition handle_import_tasks :: "app \<Rightarrow> world \<Rightarrow> py_exn option \<times> app \<times> world" where
  "handle_import_tasks a w =
     (case input ''Enter filename to import from: '' a w of
        (Inl e, a1, w1) \<Rightarrow> (Some e, a1, w1)
      | (Inr s, a1, w1) \<Rightarrow>
          (let filename = strip s;
               (a2, w2) = app_reset_activity a1 w1
           in if filename \<noteq> []
              then (let (m, w3) = import_tasks filename (manager a2) w2
                    in (None, a2\<lparr>manager := m\<rparr>, w3))
              else (None, a2, print [Lit ''Please enter a valid filename!''] w2)))"

definition handle_clear_all_tasks :: "app \<Rightarrow> world \<Rightarrow> py_exn option \<times> app \<times> world" where
  "handle_clear_all_tasks a w =
     (case input ''Are you sure you want to clear all tasks? (yes/no): '' a w of
        (Inl e, a1, w1) \<Rightarrow> (Some e, a1, w1)
      | (Inr s, a1, w1) \<Rightarrow>
          (let confirm = lower (strip s);
               (a2, w2) = app_reset_activity a1 w1
           in if confirm = ''yes'' \<or> confirm = ''y''
              then (let (m, w3) = clear_all_tasks (manager a2) w2
                    in (None, a2\<lparr>manager := m\<rparr>, w3))
              else (None, a2, print [Lit ''Operation cancelled.''] w2)))"

text \<open>The \<^verbatim>\<open>if\<close>/\<^verbatim>\<open>elif\<close> chain of \<^verbatim>\<open>run\<close> (lines 189 to 211).\<close>

definition dispatch :: "int \<Rightarrow> app \<Rightarrow> world \<Rightarrow> py_exn option \<times> app \<times> world" where
  "dispatch choice a w =
     (if choice = 1 then handle_add_task a w
      else if choice = 2 then (let (r, w') = list_tasks (manager a) w in (r, a, w'))
      else if choice = 3 then handle_complete_task a w
      else if choice = 4 then handle_delete_task a w
      else if choice = 5 then (None, a, show_statistics a w)
      else if choice = 6 then handle_task_history a w
      else if choice = 7 then handle_export_tasks a w
      else if choice = 8 then handle_import_tasks a w
      else if choice = 9 then handle_clear_all_tasks a w
      else if choice = 0
      then (let w1 = print [Lit ''Thank you for using! Goodbye!''] w
            in (None, a, w1\<lparr>running := (running w1)(app_id a := False)\<rparr>))
      else (None, a, print [Lit ''Invalid choice, please enter a number between 0-9!''] w))"

text \<open>One pass of the \<^verbatim>\<open>while self.running\<close> loop of \<^verbatim>\<open>run\<close> (lines 186 to 215).\<close>

definition menu_iteration :: "app \<Rightarrow> world \<Rightarrow> py_exn option \<times> app \<times> world" where
  "menu_iteration a w =
     (case get_user_choice a (show_menu w) of
        (Inl e, a1, w1) \<Rightarrow> (Some e, a1, w1)
      | (Inr choice, a1, w1) \<Rightarrow>
          (case dispatch choice a1 w1 of
             (Some e, a2, w2) \<Rightarrow> (Some e, a2, w2)
           | (None, a2, w2) \<Rightarrow>
               if running w2 (app_id a2)
               then (case input (CHR 0x0A # ''Press Enter to continue...'') a2 w2 of
                       (Inl e, a3, w3) \<Rightarrow> (Some e, a3, w3)
                     | (Inr s, a3, w3) \<Rightarrow>
                         (let (a4, w4) = app_reset_activity a3 w3 in (None, a4, w4)))
               else (None, a2, w2)))"

text \<open>
  The loop, for at most \<open>n\<close> passes; None when the passes do not suffice. Every pass
  reads a line or ends the loop, so the number of lines of input bounds the passes.
\<close>

fun run_loop :: "nat \<Rightarrow> app \<Rightarrow> world \<Rightarrow> (py_exn option \<times> app \<times> world) option" where
  "run_loop 0 a w = None"
| "run_loop (Suc n) a w =
     (if running w (app_id a)
      then (case menu_iteration a w of
              (Some e, a', w') \<Rightarrow> Some (Some e, a', w')
            | (None, a', w') \<Rightarrow> run_loop n a' w')
      else Some (None, a, w))"

definition alarm_clock :: string where
  "alarm_clock = [CHR 0xE2, CHR 0x8F, CHR 0xB0]"

text \<open>\<^verbatim>\<open>run\<close>: the watchdog is started, and stopped in the \<^verbatim>\<open>finally\<close> clause.\<close>

definition run :: "app \<Rightarrow> world \<Rightarrow> (py_exn option \<times> app \<times> world) option" where
  "run a w =
     (let w1 = print [Lit ''Welcome to the Task Management System!''] w;
          w2 = print [Lit (alarm_clock @
                 '' Session timeout: 3 minutes of inactivity will auto-exit the app'')] w1;
          (tm, w3) = start_timeout (timeout_manager a) w2
      in case run_loop (Suc (Suc (length (stdin w3)))) (a\<lparr>timeout_manager := tm\<rparr>) w3 of
           None \<Rightarrow> None
         | Some (r, a', w') \<Rightarrow>
             (let (tm', w'') = stop_timeout (timeout_manager a') w'
              in Some (r, a'\<lparr>timeout_manager := tm'\<rparr>, w'')))"

section \<open>Example states\<close>

definition example_clock :: "nat \<Rightarrow> datetime" where
  "example_clock n = \<lparr>year = 2024, month = 2, day = 29, hour = 10, minute = 30,
                       second = n mod 60, microsecond = 250\<rparr>"

definition example_world :: world where
  "example_world =
     \<lparr>files = Map.empty, read_only = (\<lambda>p. False), clock = example_clock, clock_reads = 0,
      time_src = (\<lambda>n. 1000 + of_nat n), time_reads = 0, stdout = [], stdin = [],
      threads = 0, alive = (\<lambda>t. False), running = (\<lambda>a. False)\<rparr>"

definition example_task :: task where
  "example_task =
     \<lparr>title = PStr ''Buy milk'', description = PStr ''2 litres'', completed = PBool True,
      created_at = Some (example_clock 3), completed_at = Some (example_clock 7)\<rparr>"

definition example_manager :: manager where
  "example_manager = \<lparr>tasks = [example_task], data_file = ''tasks.json''\<rparr>"



definition example_watchdog :: timeout_manager where
  "example_watchdog =
     \<lparr>timeout_seconds = 180, last_activity = 700, timeout_thread = Some 0,
      is_running = True, app_instance = Some 7\<rparr>"

definition example_session_world :: world where
  "example_session_world =
     example_world\<lparr>threads := 1, alive := (\<lambda>t. t = 0), running := (\<lambda>a. True)\<rparr>"




section \<open>Index checks of the task store\<close>

text \<open>
  Claim C3. For every task list and every 1-based index that is out of range (at most 0,
  or greater than the number of tasks), \<^verbatim>\<open>complete_task\<close> and \<^verbatim>\<open>delete_task\<close> leave
  the manager as it was (no task changed, none removed), print the error message
  \<^verbatim>\<open>Invalid task number!\<close> and do nothing else: no file is written and the clock is not
  read.
\<close>

theorem out_of_range_index_rejected:
  assumes "task_num \<le> 0 \<or> int (length (tasks m)) < task_num"
  shows "complete_task task_num m w = (m, print [Lit ''Invalid task number!''] w) \<and>
         delete_task task_num m w = (m, print [Lit ''Invalid task number!''] w) \<and>
         tasks (fst (complete_task task_num m w)) = tasks m \<and>
         tasks (fst (delete_task task_num m w)) = tasks m"
  using assms by (auto simp: complete_task_def delete_task_def)

theorem out_of_range_index_rejected_witness:
  "((5::int) \<le> 0 \<or> int (length (tasks example_manager)) < 5) \<and>
   complete_task 5 example_manager example_world =
     (example_manager, print [Lit ''Invalid task number!''] example_world) \<and>
   delete_task 5 example_manager example_world =
     (example_manager, print [Lit ''Invalid task number!''] example_world) \<and>
   stdout (snd (delete_task 5 example_manager example_world)) = [[Lit ''Invalid task number!'']]"
proof -
  have h: "(5::int) \<le> 0 \<or> int (length (tasks example_manager)) < 5"
    by (simp add: example_manager_def)
  have "stdout (print [Lit ''Invalid task number!''] example_world) = [[Lit ''Invalid task number!'']]"
    by (simp add: print_def example_world_def)
  then show ?thesis
    using h out_of_range_index_rejected [OF h, of example_world] by simp
qed

section \<open>Adding and deleting\<close>

lemma length_add_task: "length (tasks (fst (add_task ttl descr m w))) = Suc (length (tasks m))"
  by (simp add: add_task_def Task_init_def datetime_now_def Let_def)

lemma length_delete_task:
  "length (tasks (fst (delete_task n m w))) =
     (if 1 \<le> n \<and> n \<le> int (length (tasks m)) then length (tasks m) - 1 else length (tasks m))"
  by (auto simp: delete_task_def Let_def)

lemma apply_ops_count:
  "int (length (tasks (fst (apply_ops ops m w)))) =
     int (length (tasks m)) + int (adds ops) - int (in_range_deletes ops m w)"
proof (induction ops m w rule: apply_ops.induct)
  case (1 m w)
  then show ?case by simp
next
  case (2 ttl descr ops m w)
  obtain m' w' where st: "add_task ttl descr m w = (m', w')"
    by (cases "add_task ttl descr m w")
  have len: "length (tasks m') = Suc (length (tasks m))"
    using length_add_task [of ttl descr m w] st by simp
  show ?case
    using "2.IH" [of "(m', w')" m' w'] st len by simp
next
  case (3 n ops m w)
  obtain m' w' where st: "delete_task n m w = (m', w')"
    by (cases "delete_task n m w")
  have len: "length (tasks m') =
     (if 1 \<le> n \<and> n \<le> int (length (tasks m)) then length (tasks m) - 1 else length (tasks m))"
    using length_delete_task [of n m w] st by simp
  show ?case
    using "3.IH" [of "(m', w')" m' w'] st len by (auto simp: of_nat_diff)
qed

text \<open>
  Claim C5. For every sequence of \<^verbatim>\<open>add_task\<close> and \<^verbatim>\<open>delete_task\<close> operations that
  starts from a manager without tasks, the number of tasks at the end (the total of
  \<^verbatim>\<open>get_task_count\<close>) is the number of adds minus the number of deletes whose index was
  in range when they ran; this difference is never negative, and a delete with an index
  out of range changes nothing.
\<close>

theorem task_count_adds_minus_deletes:
  assumes "tasks m = []"
  shows "fst (get_task_count (fst (apply_ops ops m w))) =
           int (adds ops) - int (in_range_deletes ops m w) \<and>
         0 \<le> int (adds ops) - int (in_range_deletes ops m w) \<and>
         ((n \<le> 0 \<or> int (length (tasks m')) < n) \<longrightarrow> fst (delete_task n m' w') = m')"
proof -
  have "int (length (tasks (fst (apply_ops ops m w)))) =
          int (adds ops) - int (in_range_deletes ops m w)"
    using apply_ops_count [of ops m w] assms by simp
  then show ?thesis
    by (auto simp: get_task_count_def Let_def delete_task_def)
qed

theorem task_count_adds_minus_deletes_witness:
  "tasks (example_manager\<lparr>tasks := []\<rparr>) = [] \<and>
   fst (get_task_count (fst (apply_ops
       [Delete 1, Add (PStr ''a'') (PStr ''''), Add (PStr ''b'') (PStr ''''), Delete 3, Delete 1]
       (example_manager\<lparr>tasks := []\<rparr>) example_world))) = 1 \<and>
   adds [Delete 1, Add (PStr ''a'') (PStr ''''), Add (PStr ''b'') (PStr ''''), Delete 3, Delete 1] = 2 \<and>
   in_range_deletes
       [Delete 1, Add (PStr ''a'') (PStr ''''), Add (PStr ''b'') (PStr ''''), Delete 3, Delete 1]
       (example_manager\<lparr>tasks := []\<rparr>) example_world = 1 \<and>
   ((0::int) \<le> 0 \<or> int (length (tasks (example_manager\<lparr>tasks := []\<rparr>))) < 0) \<and>
   fst (delete_task 0 (example_manager\<lparr>tasks := []\<rparr>) example_world) =
     example_manager\<lparr>tasks := []\<rparr>"
proof -
  let ?ops = "[Delete 1, Add (PStr ''a'') (PStr ''''), Add (PStr ''b'') (PStr ''''), Delete 3, Delete 1]"
  let ?m = "example_manager\<lparr>tasks := []\<rparr>"
  have h: "tasks ?m = []" by simp
  have a: "adds ?ops = 2" by simp
  have d: "in_range_deletes ?ops ?m example_world = 1"
    by (simp add: add_task_def delete_task_def Task_init_def datetime_now_def Let_def)
  show ?thesis
    using h a d task_count_adds_minus_deletes [OF h, of ?ops example_world 0 ?m example_world]
    by simp
qed

text \<open>
  Claim C10. Every task created through \<^verbatim>\<open>add_task\<close> starts pending: whatever the
  title and the description, the task appended has \<^verbatim>\<open>completed = False\<close> and
  \<^verbatim>\<open>completed_at = None\<close>; the constructor sets \<^verbatim>\<open>completed\<close> to False whatever its
  arguments; and \<^verbatim>\<open>add_task\<close> does not change the completed count that
  \<^verbatim>\<open>get_task_count\<close> reports.
\<close>

theorem add_task_starts_pending:
  "tasks (fst (add_task ttl descr m w)) =
     tasks m @ [\<lparr>title = ttl, description = descr, completed = PBool False,
                 created_at = Some (clock w (clock_reads w)), completed_at = None\<rparr>] \<and>
   completed (last (tasks (fst (add_task ttl descr m w)))) = PBool False \<and>
   completed_at (last (tasks (fst (add_task ttl descr m w)))) = None \<and>
   completed (fst (Task_init ttl' descr' created completed_time w')) = PBool False \<and>
   fst (snd (get_task_count (fst (add_task ttl descr m w)))) = fst (snd (get_task_count m))"
proof -
  have app: "tasks (fst (add_task ttl descr m w)) =
     tasks m @ [\<lparr>title = ttl, description = descr, completed = PBool False,
                 created_at = Some (clock w (clock_reads w)), completed_at = None\<rparr>]"
    by (simp add: add_task_def Task_init_def datetime_now_def Let_def)
  have init: "completed (fst (Task_init ttl' descr' created completed_time w')) = PBool False"
    by (simp add: Task_init_def datetime_now_def split: option.splits)
  show ?thesis
    by (simp add: app init get_task_count_def Let_def)
qed

theorem add_task_starts_pending_witness:
  "completed (last (tasks (fst (add_task (PStr ''Call Bob'') (PStr '''') example_manager example_world))))
     = PBool False \<and>
   get_task_count (fst (add_task (PStr ''Call Bob'') (PStr '''') example_manager example_world)) = (2, 1, 1) \<and>
   get_task_count example_manager = (1, 1, 0)"
  using add_task_starts_pending [of "PStr ''Call Bob''" "PStr ''''" example_manager example_world]
  by (simp add: get_task_count_def example_manager_def example_task_def Let_def)


section \<open>The ISO format of dates\<close>

lemma length_pad [simp]: "length (pad k n) = k"
  by (induction k arbitrary: n) auto

lemma of_char_digit_char:
  assumes "d < 10"
  shows "(of_char (digit_char d) :: nat) = 48 + d"
proof -
  have "d \<in> {0, 1, 2, 3, 4, 5, 6, 7, 8, 9}"
    using assms by auto
  then show ?thesis
    by (auto simp: digit_char_def)
qed

lemma is_digit_digit_char: "d < 10 \<Longrightarrow> is_digit (digit_char d)"
  by (simp add: is_digit_def of_char_digit_char)

lemma number_append:
  "number (xs @ ys) acc = (case number xs acc of None \<Rightarrow> None | Some a \<Rightarrow> number ys a)"
  by (induction xs arbitrary: acc) auto

lemma number_pad: "number (pad k n) acc = Some (acc * 10 ^ k + n mod 10 ^ k)"
proof (induction k arbitrary: n acc)
  case 0
  then show ?case by simp
next
  case (Suc k)
  have "n mod 10 < 10" by simp
  then have d: "is_digit (digit_char (n mod 10))"
    "(of_char (digit_char (n mod 10)) :: nat) - 48 = n mod 10"
    by (simp_all add: is_digit_digit_char of_char_digit_char)
  have "10 * (n div 10 mod 10 ^ k) + n mod 10 = n mod (10 * 10 ^ k)"
    by (metis mod_mult2_eq add.commute)
  then show ?case
    by (simp add: number_append Suc.IH d algebra_simps)
qed

lemma pad_numeral:
  "pad (numeral k) n = pad (pred_numeral k) (n div 10) @ [digit_char (n mod 10)]"
  by (simp only: numeral_eq_Suc [of k] pad.simps)

lemma number_pad_small: "n < 10 ^ k \<Longrightarrow> number (pad k n) 0 = Some n"
  by (simp add: number_pad)

lemma fromisoformat_isoformat:
  assumes "valid_datetime d"
  shows "fromisoformat (isoformat d) = Inr d"
proof -
  have r: "year d < 10000" "month d < 100" "day d < 100" "hour d < 100"
    "minute d < 100" "second d < 100" "microsecond d < 1000000"
    using assms by (auto simp: valid_datetime_def days_in_month_def split: if_splits)
  have same: "\<lparr>year = year d, month = month d, day = day d, hour = hour d,
                minute = minute d, second = second d, microsecond = microsecond d\<rparr> = d"
    by simp
  have "fromisoformat (isoformat d) =
          (let d' = \<lparr>year = year d, month = month d, day = day d, hour = hour d,
                minute = minute d, second = second d, microsecond = microsecond d\<rparr>
           in if valid_datetime d' then Inr d' else Inl ValueError)"
    by (cases "microsecond d = 0")
       (simp_all add: fromisoformat_def isoformat_def slice_def nth_append number_pad_small r)
  then show ?thesis
    using assms by (simp add: same)
qed

lemma fromisoformat_valid: "fromisoformat s = Inr d \<Longrightarrow> valid_datetime d"
  by (auto simp: fromisoformat_def Let_def split: if_splits option.splits)

lemma isoformat_nonempty: "isoformat d \<noteq> []"
proof
  assume "isoformat d = []"
  then have "length (isoformat d) = 0" by simp
  then show False by (simp add: isoformat_def)
qed

section \<open>Tasks and their dictionaries\<close>

lemma read_time_iso:
  assumes "map_of kvs k = Some (iso_or_none x)"
      and "case x of None \<Rightarrow> True | Some c \<Rightarrow> valid_datetime c"
  shows "read_time kvs k = Inr x"
  using assms
  by (cases x) (simp_all add: read_time_def dict_get_def iso_or_none_def
      isoformat_nonempty fromisoformat_isoformat)

lemma read_time_valid:
  "read_time kvs k = Inr x \<Longrightarrow> (case x of None \<Rightarrow> True | Some c \<Rightarrow> valid_datetime c)"
  by (auto simp: read_time_def Let_def fromisoformat_valid
      split: if_splits pyval.splits sum.splits)

lemma from_dict_to_dict:
  assumes "task_ok t"
  shows "from_dict (to_dict t) w = (Inr t, w)"
proof -
  obtain c where c: "created_at t = Some c" "valid_datetime c"
    using assms by (auto simp: task_ok_def split: option.splits)
  have done_ok: "case completed_at t of None \<Rightarrow> True | Some c \<Rightarrow> valid_datetime c"
    using assms by (simp add: task_ok_def)
  let ?kvs = "[(''title'', title t), (''description'', description t),
               (''completed'', completed t), (''created_at'', iso_or_none (created_at t)),
               (''completed_at'', iso_or_none (completed_at t))]"
  have t1: "read_time ?kvs ''created_at'' = Inr (created_at t)"
    by (rule read_time_iso) (simp_all add: c)
  have t2: "read_time ?kvs ''completed_at'' = Inr (completed_at t)"
    by (rule read_time_iso) (simp_all add: done_ok)
  have same: "\<lparr>title = title t, description = description t, completed = completed t,
                created_at = Some c, completed_at = completed_at t\<rparr> = t"
    using c by simp
  show ?thesis
    unfolding to_dict_def from_dict_def
    by (simp add: t1 [unfolded c(1)] t2 [unfolded c(1)] dict_item_def dict_get_def
        Task_init_def c same)
qed

lemma from_dicts_to_dicts:
  "list_all task_ok ts \<Longrightarrow> from_dicts (map to_dict ts) w = (Inr ts, w)"
  by (induction ts) (simp_all add: from_dict_to_dict)

text \<open>Reading records changes nothing of the world but the number of clock readings.\<close>

lemma from_dict_world: "from_dict d w = (r, w') \<Longrightarrow> same_outside w w'"
  by (auto simp: from_dict_def Task_init_def datetime_now_def Let_def same_outside_def
      split: pyval.splits sum.splits option.splits)

lemma from_dicts_world: "from_dicts ds w = (r, w') \<Longrightarrow> same_outside w w'"
proof (induction ds arbitrary: w r w')
  case Nil
  then show ?case by (auto simp: same_outside_def)
next
  case (Cons d ds)
  obtain r1 w1 where s1: "from_dict d w = (r1, w1)" by (cases "from_dict d w")
  then have n1: "same_outside w w1"
    by (rule from_dict_world)
  show ?case
  proof (cases r1)
    case (Inl e)
    then have "w' = w1"
      using Cons.prems s1 by simp
    then show ?thesis using n1 by simp
  next
    case (Inr t)
    obtain r2 w2 where s2: "from_dicts ds w1 = (r2, w2)" by (cases "from_dicts ds w1")
    then have n2: "same_outside w1 w2"
      by (rule Cons.IH)
    have "w' = w2"
      using Cons.prems s1 s2 Inr by (auto split: sum.splits)
    then show ?thesis
      using n1 n2 by (simp add: same_outside_def)
  qed
qed

lemma read_tasks_world: "read_tasks path w = (r, w') \<Longrightarrow> same_outside w w'"
proof (cases "read_json path w")
  case (Inl e)
  assume "read_tasks path w = (r, w')"
  then have "w' = w" using Inl by (simp add: read_tasks_def)
  then show ?thesis by (simp add: same_outside_def)
next
  case (Inr v)
  assume a: "read_tasks path w = (r, w')"
  show ?thesis
  proof (cases "py_iter v")
    case (Inl e)
    then have "w' = w" using a Inr by (simp add: read_tasks_def)
    then show ?thesis by (simp add: same_outside_def)
  next
    case ds: (Inr ds)
    then have "from_dicts ds w = (r, w')" using a Inr by (simp add: read_tasks_def)
    then show ?thesis by (rule from_dicts_world)
  qed
qed


lemma save_tasks_writable:
  "\<not> read_only w (data_file m) \<Longrightarrow>
   save_tasks m w =
     w\<lparr>files := (files w)(data_file m \<mapsto> Json_file (PList (map to_dict (tasks m))))\<rparr>"
  by (simp add: save_tasks_def write_json_def)


section \<open>Saving and loading\<close>

text \<open>
  Every task that the constructor or \<^verbatim>\<open>from_dict\<close> builds has a creation time, and the
  operations of the manager keep that, as long as the clock gives dates that exist.
\<close>

lemma Task_init_ok:
  assumes "clock_ok w"
      and "case created of None \<Rightarrow> True | Some c \<Rightarrow> valid_datetime c"
      and "case completed_time of None \<Rightarrow> True | Some c \<Rightarrow> valid_datetime c"
  shows "task_ok (fst (Task_init ttl descr created completed_time w))"
  using assms
  by (auto simp: Task_init_def datetime_now_def task_ok_def clock_ok_def split: option.splits)

lemma task_ok_completed_update: "task_ok (t\<lparr>completed := v\<rparr>) = task_ok t"
  by (simp add: task_ok_def)

lemma from_dict_ok:
  assumes "clock_ok w" and "from_dict d w = (Inr t, w')"
  shows "task_ok t"
proof -
  obtain kvs where d: "d = PDict kvs"
    using assms(2) by (cases d) (auto simp: from_dict_def)
  obtain created where r1: "read_time kvs ''created_at'' = Inr created"
    using assms(2) d by (cases "read_time kvs ''created_at''") (auto simp: from_dict_def)
  obtain completed_time where r2: "read_time kvs ''completed_at'' = Inr completed_time"
    using assms(2) d r1 by (cases "read_time kvs ''completed_at''") (auto simp: from_dict_def)
  obtain ttl where r3: "dict_item kvs ''title'' = Inr ttl"
    using assms(2) d r1 r2 by (cases "dict_item kvs ''title''") (auto simp: from_dict_def)
  let ?t = "fst (Task_init ttl (dict_get kvs ''description'' (PStr [])) created completed_time w)"
  have t: "t = ?t\<lparr>completed := dict_get kvs ''completed'' (PBool False)\<rparr>"
    using assms(2) d r1 r2 r3 by (auto simp: from_dict_def Let_def split: prod.splits)
  have "task_ok ?t"
    using assms(1) r1 r2 by (intro Task_init_ok read_time_valid)
  then show ?thesis
    by (simp add: t task_ok_completed_update)
qed

lemma from_dicts_ok:
  "clock_ok w \<Longrightarrow> from_dicts ds w = (Inr ts, w') \<Longrightarrow> list_all task_ok ts"
proof (induction ds arbitrary: w ts w')
  case Nil
  then show ?case by simp
next
  case (Cons d ds)
  obtain t w1 ts' where s1: "from_dict d w = (Inr t, w1)"
    and s2: "from_dicts ds w1 = (Inr ts', w')" and ts: "ts = t # ts'"
    using Cons.prems(2) by (auto split: prod.splits sum.splits)
  have "same_outside w w1"
    using s1 by (rule from_dict_world)
  then have "clock_ok w1"
    using Cons.prems(1) by (simp add: clock_ok_def same_outside_def)
  then have "list_all task_ok ts'"
    using s2 by (rule Cons.IH)
  moreover have "task_ok t"
    using Cons.prems(1) s1 by (rule from_dict_ok)
  ultimately show ?case
    by (simp add: ts)
qed

lemma add_task_ok:
  "clock_ok w \<Longrightarrow> list_all task_ok (tasks m) \<Longrightarrow> list_all task_ok (tasks (fst (add_task ttl descr m w)))"
  by (simp add: add_task_def Task_init_def datetime_now_def Let_def task_ok_def clock_ok_def)

lemma complete_task_ok:
  assumes "clock_ok w" and "list_all task_ok (tasks m)"
  shows "list_all task_ok (tasks (fst (complete_task n m w)))"
proof (cases "1 \<le> n \<and> n \<le> int (length (tasks m))")
  case True
  then have i: "nat (n - 1) < length (tasks m)" by auto
  then have "task_ok (tasks m ! nat (n - 1))"
    using assms(2) by (simp add: list_all_length)
  then have "task_ok ((tasks m ! nat (n - 1))\<lparr>completed := PBool True,
      completed_at := Some (clock w (clock_reads w))\<rparr>)"
    using assms(1) by (simp add: task_ok_def clock_ok_def)
  then show ?thesis
    using True assms(2) i
    by (simp add: complete_task_def mark_completed_def datetime_now_def Let_def
        list_all_length nth_list_update)
next
  case False
  then show ?thesis
    using assms(2) by (auto simp: complete_task_def)
qed

lemma delete_task_ok:
  assumes "list_all task_ok (tasks m)"
  shows "list_all task_ok (tasks (fst (delete_task n m w)))"
proof -
  have "set (take i (tasks m) @ drop (Suc i) (tasks m)) \<subseteq> set (tasks m)" for i
    using set_take_subset [of i "tasks m"] set_drop_subset [of "Suc i" "tasks m"] by auto
  then show ?thesis
    using assms by (auto simp: delete_task_def Let_def list_all_iff)
qed

lemma TaskManager_init_ok:
  assumes "clock_ok w"
  shows "list_all task_ok (tasks (fst (TaskManager_init path w)))"
proof (cases "read_tasks path w")
  case (Pair r w')
  show ?thesis
  proof (cases r)
    case (Inl e)
    with Pair show ?thesis
      by (simp add: TaskManager_init_def load_tasks_def load_tasks_body_def)
  next
    case (Inr ts)
    have "list_all task_ok ts"
      using assms Pair Inr from_dicts_ok
      by (auto simp: read_tasks_def split: sum.splits)
    with Pair Inr show ?thesis
      by (simp add: TaskManager_init_def load_tasks_def load_tasks_body_def)
  qed
qed

lemma import_tasks_ok:
  assumes "clock_ok w" and "list_all task_ok (tasks m)"
  shows "list_all task_ok (tasks (fst (import_tasks filename m w)))"
proof (cases "read_tasks filename w")
  case (Pair r w')
  show ?thesis
  proof (cases r)
    case (Inl e)
    with Pair assms(2) show ?thesis
      by (simp add: import_tasks_def)
  next
    case (Inr ts)
    have "list_all task_ok ts"
      using assms(1) Pair Inr from_dicts_ok
      by (auto simp: read_tasks_def split: sum.splits)
    with Pair Inr assms(2) show ?thesis
      by (simp add: import_tasks_def Let_def)
  qed
qed

text \<open>
  Claim C4. For every sequence of N tasks (each with its creation time, as the
  constructor and \<^verbatim>\<open>from_dict\<close> leave it, see \<open>from_dicts_ok\<close> and the lemmas after it),
  saving it to a backing file that can be written and then loading that file in a new
  manager yields the same N tasks: title, description, completed flag, creation time and
  completion time of every task are those of the original.
\<close>

theorem save_load_round_trip:
  assumes "\<not> read_only w (data_file m)" and "list_all task_ok (tasks m)"
  shows "TaskManager_init (data_file m) (save_tasks m w) = (m, save_tasks m w) \<and>
         length (tasks (fst (TaskManager_init (data_file m) (save_tasks m w)))) = length (tasks m) \<and>
         from_dicts (map to_dict (tasks m)) w = (Inr (tasks m), w)"
  using assms
  by (simp add: save_tasks_writable TaskManager_init_def load_tasks_def load_tasks_body_def
      read_tasks_def read_json_def from_dicts_to_dicts)

lemma example_clock_valid: "valid_datetime (example_clock n)"
  by (simp add: valid_datetime_def example_clock_def days_in_month_def is_leap_def)

theorem save_load_round_trip_witness:
  "\<not> read_only example_world (data_file example_manager) \<and>
   list_all task_ok (tasks example_manager) \<and>
   TaskManager_init ''tasks.json'' (save_tasks example_manager example_world) =
     (example_manager, save_tasks example_manager example_world) \<and>
   files (save_tasks example_manager example_world) ''tasks.json'' =
     Some (Json_file (PList [PDict
       [(''title'', PStr ''Buy milk''), (''description'', PStr ''2 litres''),
        (''completed'', PBool True),
        (''created_at'', PStr ''2024-02-29T10:30:03.000250''),
        (''completed_at'', PStr ''2024-02-29T10:30:07.000250'')]]))"
proof -
  have h1: "\<not> read_only example_world (data_file example_manager)"
    by (simp add: example_world_def)
  have h2: "list_all task_ok (tasks example_manager)"
    by (simp add: example_manager_def example_task_def task_ok_def example_clock_valid)
  have f: "data_file example_manager = ''tasks.json''"
    by (simp add: example_manager_def)
  have iso: "isoformat (example_clock 3) = ''2024-02-29T10:30:03.000250''"
            "isoformat (example_clock 7) = ''2024-02-29T10:30:07.000250''"
    by (simp_all add: isoformat_def example_clock_def pad_numeral digit_char_def)
  have written: "files (save_tasks example_manager example_world) ''tasks.json'' =
     Some (Json_file (PList (map to_dict (tasks example_manager))))"
    using h1 by (simp add: save_tasks_writable f)
  show ?thesis
    using h1 h2 save_load_round_trip [OF h1 h2] written
    by (simp add: f example_manager_def example_task_def to_dict_def iso_or_none_def iso)
qed



section \<open>Importing\<close>





section \<open>The watchdog\<close>

text \<open>
  Claim C8. \<^verbatim>\<open>start_timeout\<close> is idempotent: called while the watchdog is running it
  does nothing (the activity time is not reset, the clock is not read, no second thread
  is started, the manager and the world stay as they are); hence starting twice is the
  same as starting once.
\<close>

theorem start_timeout_idempotent:
  assumes "is_running tm"
  shows "start_timeout tm w = (tm, w) \<and>
         last_activity (fst (start_timeout tm w)) = last_activity tm \<and>
         threads (snd (start_timeout tm w)) = threads w \<and>
         time_reads (snd (start_timeout tm w)) = time_reads w \<and>
         start_timeout (fst (start_timeout tm0 w0)) (snd (start_timeout tm0 w0)) =
           start_timeout tm0 w0"
proof -
  have once: "start_timeout tm w = (tm, w)"
    using assms by (simp add: start_timeout_def)
  have "is_running (fst (start_timeout tm0 w0))"
    by (simp add: start_timeout_def reset_activity_def time_time_def thread_start_def Let_def)
  then have "start_timeout (fst (start_timeout tm0 w0)) (snd (start_timeout tm0 w0)) =
      (fst (start_timeout tm0 w0), snd (start_timeout tm0 w0))"
    by (simp add: start_timeout_def)
  then show ?thesis
    using once by simp
qed

theorem start_timeout_idempotent_witness:
  "is_running example_watchdog \<and>
   start_timeout example_watchdog example_session_world = (example_watchdog, example_session_world) \<and>
   threads (snd (start_timeout example_watchdog example_session_world)) = 1 \<and>
   threads (snd (start_timeout (example_watchdog\<lparr>is_running := False\<rparr>) example_session_world)) = 2 \<and>
   start_timeout (fst (start_timeout (example_watchdog\<lparr>is_running := False\<rparr>) example_session_world))
                 (snd (start_timeout (example_watchdog\<lparr>is_running := False\<rparr>) example_session_world)) =
     start_timeout (example_watchdog\<lparr>is_running := False\<rparr>) example_session_world"
proof -
  have h: "is_running example_watchdog"
    by (simp add: example_watchdog_def)
  have t1: "threads example_session_world = 1"
    by (simp add: example_session_world_def)
  have t2: "threads (snd (start_timeout (example_watchdog\<lparr>is_running := False\<rparr>) example_session_world)) = 2"
    by (simp add: start_timeout_def reset_activity_def time_time_def thread_start_def Let_def t1)
  show ?thesis
    using h t1 t2
      start_timeout_idempotent [OF h, of example_session_world
        "example_watchdog\<lparr>is_running := False\<rparr>" example_session_world]
    by simp
qed

text \<open>The world after the notice of a timeout (lines 53 to 56 of \<^verbatim>\<open>app.py\<close>).\<close>

lemma poll_tick_expired:
  assumes "is_running tm"
      and "of_int (timeout_seconds tm) \<le> fl (time_src w (time_reads w) - last_activity tm)"
  shows "poll_tick tm w =
          (Break, tm,
           (case app_instance tm of
              None \<Rightarrow> (\<lambda>x. x)
            | Some a \<Rightarrow> (\<lambda>x. x\<lparr>running := (running x)(a := False)\<rparr>))
             (print [Lit ''Application will exit automatically...'']
               (print [Lit ([CHR 0x0A, CHR 0x0A] @ warning_sign @
                            ''  Session timeout! No activity for '' @
                            str_int (timeout_seconds tm div 60) @ '' minutes.'')]
                  (w\<lparr>time_reads := Suc (time_reads w)\<rparr>))))"
  using assms
  by (simp add: poll_tick_def time_time_def Let_def split: option.splits)

lemma timeout_monitor_expired:
  assumes "is_running tm"
      and "of_int (timeout_seconds tm) \<le> fl (time_src w (time_reads w) - last_activity tm)"
  shows "timeout_monitor tid (Suc k) tm w = (tm, thread_exit tid (snd (snd (poll_tick tm w))))"
  using assms(1) by (simp add: poll_tick_expired [OF assms])

text \<open>
  Claim C1, as the code has it. When the watchdog is running and a poll finds that the
  time since the last recorded activity is at least the timeout, the poll prints the
  timeout notice (two lines), sets the \<^verbatim>\<open>running\<close> flag of the bound application to
  false, and leaves the polling loop, which ends the thread, without any call of
  \<^verbatim>\<open>stop_timeout\<close>. The watchdog's own \<^verbatim>\<open>is_running\<close> flag is not changed by this: no
  attribute of the manager is assigned, and the flag is cleared by \<^verbatim>\<open>stop_timeout\<close>
  only.
\<close>

theorem expiry_step:
  assumes "is_running tm"
      and "of_int (timeout_seconds tm) \<le> fl (time_src w (time_reads w) - last_activity tm)"
      and "app_instance tm = Some a"
  shows "fst (poll_tick tm w) = Break \<and>
         stdout (snd (snd (poll_tick tm w))) =
           stdout w @
           [[Lit ([CHR 0x0A, CHR 0x0A] @ warning_sign @ ''  Session timeout! No activity for '' @
                  str_int (timeout_seconds tm div 60) @ '' minutes.'')],
            [Lit ''Application will exit automatically...'']] \<and>
         \<not> running (snd (snd (poll_tick tm w))) a \<and>
         fst (snd (poll_tick tm w)) = tm \<and>
         timeout_monitor tid (Suc k) tm w = (tm, thread_exit tid (snd (snd (poll_tick tm w)))) \<and>
         \<not> alive (snd (timeout_monitor tid (Suc k) tm w)) tid \<and>
         is_running (fst (timeout_monitor tid (Suc k) tm w)) \<and>
         \<not> is_running (fst (stop_timeout (fst (timeout_monitor tid (Suc k) tm w)) w'))"
proof -
  note tick = poll_tick_expired [OF assms(1,2)]
  have stop: "\<not> is_running (fst (stop_timeout tm w'))"
    by (simp add: stop_timeout_def pass_time_def Let_def split: option.splits)
  show ?thesis
    using assms(1,3) stop
    by (simp add: tick print_def thread_exit_def)
qed

lemma example_expired:
  "of_int (timeout_seconds example_watchdog) \<le>
     fl (time_src example_session_world (time_reads example_session_world) -
         last_activity example_watchdog)"
proof -
  have "fl 300 = 300" by code_simp
  then show ?thesis
    by (simp add: example_watchdog_def example_session_world_def example_world_def)
qed

theorem expiry_step_witness:
  "is_running example_watchdog \<and>
   of_int (timeout_seconds example_watchdog) \<le>
     fl (time_src example_session_world (time_reads example_session_world) -
         last_activity example_watchdog) \<and>
   app_instance example_watchdog = Some 7 \<and>
   running example_session_world 7 \<and>
   fst (poll_tick example_watchdog example_session_world) = Break \<and>
   \<not> running (snd (snd (poll_tick example_watchdog example_session_world))) 7 \<and>
   stdout (snd (snd (poll_tick example_watchdog example_session_world))) =
     [[Lit ([CHR 0x0A, CHR 0x0A] @ warning_sign @ ''  Session timeout! No activity for 3 minutes.'')],
      [Lit ''Application will exit automatically...'']] \<and>
   alive example_session_world 0 \<and>
   \<not> alive (snd (timeout_monitor 0 (Suc 4) example_watchdog example_session_world)) 0"
proof -
  have h1: "is_running example_watchdog"
    by (simp add: example_watchdog_def)
  have h3: "app_instance example_watchdog = Some 7"
    by (simp add: example_watchdog_def)
  have mins: "str_int (timeout_seconds example_watchdog div 60) = ''3''"
    by (simp add: example_watchdog_def str_int_def str_nat.simps digit_char_def)
  have w: "running example_session_world 7" "alive example_session_world 0"
    "stdout example_session_world = []"
    by (simp_all add: example_session_world_def example_world_def)
  show ?thesis
    using h1 h3 w example_expired
      expiry_step [OF h1 example_expired h3, of 0 4 example_session_world]
    by (simp add: mins thread_exit_def)
qed

text \<open>
  Claim C1 as the specification states it fails in one point: after the expiry the
  watchdog is still marked as running.
\<close>

theorem expiry_keeps_is_running:
  "is_running example_watchdog \<and>
   of_int (timeout_seconds example_watchdog) \<le>
     fl (time_src example_session_world (time_reads example_session_world) -
         last_activity example_watchdog) \<and>
   fst (poll_tick example_watchdog example_session_world) = Break \<and>
   is_running (fst (snd (poll_tick example_watchdog example_session_world))) \<and>
   is_running (fst (timeout_monitor 0 (Suc 4) example_watchdog example_session_world))"
proof -
  have h1: "is_running example_watchdog"
    by (simp add: example_watchdog_def)
  note tick = poll_tick_expired [OF h1 example_expired]
  note loop = timeout_monitor_expired [OF h1 example_expired, of 0 4]
  show ?thesis
    using h1 example_expired loop by (simp add: tick)
qed


section \<open>The menu\<close>

lemma stdout_foldl_print:
  "foldl (\<lambda>w' l. print [Lit l] w') w ls = w\<lparr>stdout := stdout w @ map (\<lambda>l. [Lit l]) ls\<rparr>"
  by (induction ls arbitrary: w) (simp_all add: print_def)


lemma show_menu_running: "running (show_menu w) = running w"
  by (simp add: show_menu_def stdout_foldl_print)











end
